theory Spec2Isabelle
  imports Main
begin

section \<open>Python strings\<close>

text \<open>
  A Python \<open>str\<close> is a sequence of code points; the texts of this program are modelled as
  \<^typ>\<open>string\<close> with one \<^typ>\<open>char\<close> per code point below 256 (so the degree sign of
  the temperature metric is the single character \<open>0xB0\<close>).
\<close>

text \<open>\<open>s.startswith(p)\<close>.\<close>

fun startswith :: "string \<Rightarrow> string \<Rightarrow> bool" where
  "startswith s [] = True"
| "startswith [] (p # ps) = False"
| "startswith (c # cs) (p # ps) = (c = p \<and> startswith cs ps)"

text \<open>\<open>sub in s\<close> on two strings: \<open>sub\<close> occurs in \<open>s\<close> as a contiguous run.\<close>

fun str_in :: "string \<Rightarrow> string \<Rightarrow> bool" where
  "str_in sub [] = (sub = [])"
| "str_in sub (c # cs) = (startswith (c # cs) sub \<or> str_in sub cs)"

text \<open>
  \<open>str.lower()\<close> on code points below 256: the letters \<open>A\<close>..\<open>Z\<close> and the
  accented capitals \<open>0xC0\<close>..\<open>0xDE\<close> (without the multiplication sign \<open>0xD7\<close>) move
  up by 32, every other character stays.
\<close>

definition lower_char :: "char \<Rightarrow> char" where
  "lower_char c =
     (let n = (of_char c :: nat)
      in if (65 \<le> n \<and> n \<le> 90) \<or> (192 \<le> n \<and> n \<le> 222 \<and> n \<noteq> 215)
         then char_of (n + 32) else c)"

definition lower :: "string \<Rightarrow> string" where
  "lower s = map lower_char s"

text \<open>
  \<open>str.strip()\<close>: the white space of Python below code point 256 is removed at both ends.
\<close>

definition isspace :: "char \<Rightarrow> bool" where
  "isspace c =
     (let n = (of_char c :: nat)
      in (9 \<le> n \<and> n \<le> 13) \<or> (28 \<le> n \<and> n \<le> 32) \<or> n = 133 \<or> n = 160)"

definition strip :: "string \<Rightarrow> string" where
  "strip s = rev (dropWhile isspace (rev (dropWhile isspace s)))"

text \<open>\<open>str(n)\<close> for a non-negative integer.\<close>

definition digit :: "nat \<Rightarrow> char" where
  "digit d = char_of (48 + d)"

fun str_nat :: "nat \<Rightarrow> string" where
  "str_nat n = (if n < 10 then [digit n] else str_nat (n div 10) @ [digit (n mod 10)])"

declare str_nat.simps [simp del]

text \<open>\<open>sep.join(xs)\<close>.\<close>

fun join :: "string \<Rightarrow> string list \<Rightarrow> string" where
  "join sep [] = []"
| "join sep [x] = x"
| "join sep (x # y # ys) = x @ sep @ join sep (y # ys)"

section \<open>The random module\<close>

text \<open>
  Every call of the \<open>random\<close> module takes its raw draw as an argument, a natural number
  that the call reduces to its range. Exceptions of Python are values; \<open>TclError\<close> is the
  exception of tkinter for a command that Tk refuses.
\<close>

datatype py_error = IndexError | ValueError | AttributeError string | TclError

text \<open>\<open>random.choice(seq)\<close>: IndexError on an empty sequence.\<close>

definition choice :: "'a list \<Rightarrow> nat \<Rightarrow> py_error + 'a" where
  "choice xs d = (if xs = [] then Inl IndexError else Inr (xs ! (d mod length xs)))"

text \<open>\<open>random.randint(a, b)\<close>: an integer \<open>N\<close> with \<open>a \<le> N \<le> b\<close>.\<close>

definition randint :: "nat \<Rightarrow> nat \<Rightarrow> nat \<Rightarrow> nat" where
  "randint a b d = a + d mod (b - a + 1)"

text \<open>
  \<open>random.sample(population, 2)\<close>, as CPython does it for a short population: a copy of
  the population is the pool; the first pick is taken at a random place of the pool, the
  last pool element is moved there, and the second pick is taken among the places before
  the last. ValueError when the population has fewer than two elements.
\<close>

definition sample2 :: "'a list \<Rightarrow> nat \<Rightarrow> nat \<Rightarrow> py_error + 'a list" where
  "sample2 population d0 d1 =
     (let n = length population
      in if n < 2 then Inl ValueError
         else let j0 = d0 mod n;
                  pool = population[j0 := population ! (n - 1)];
                  j1 = d1 mod (n - 1)
              in Inr [population ! j0, pool ! j1])"

section \<open>CatSEEKR1.py: CatMind\<close>

datatype category = C_hello | C_question | C_default

text \<open>\<open>self.knowledge['responses']\<close>.\<close>

fun responses :: "category \<Rightarrow> string list" where
  "responses C_hello =
     [''Meow! Welcome human.'', ''Purr... Ready for questions?'', ''*head bump* Hello!'']"
| "responses C_question =
     [''Ancient feline secret... but where's the tuna?'',
      ''Paw-sitive maybe, needs more nap time'',
      ''Answer hidden in the litter box'']"
| "responses C_default =
     [''*tail flick* Try again with fishier question'', ''Napping engine engaged... Zzz'']"

definition greets :: "string list" where
  "greets = [''hi'', ''hello'', ''hey'']"

text \<open>\<open>any(greet in input_text.lower() for greet in ['hi', 'hello', 'hey'])\<close>.\<close>

definition any_greet :: "string \<Rightarrow> bool" where
  "any_greet input_text = list_ex (\<lambda>greet. str_in greet (lower input_text)) greets"

text \<open>The \<open>if\<close>/\<open>elif\<close> chain of \<open>CatMind.generate_response\<close> that sets \<open>category\<close>.\<close>

definition r1_category :: "string \<Rightarrow> category" where
  "r1_category input_text =
     (if str_in ''?'' input_text then C_question
      else if any_greet input_text then C_hello
      else C_default)"

definition r1_generate_response :: "string \<Rightarrow> nat \<Rightarrow> py_error + string" where
  "r1_generate_response input_text d = choice (responses (r1_category input_text)) d"

section \<open>CatSEEK.test.py: NPUModel\<close>

datatype pattern = P_greeting | P_question | P_technical

fun response_patterns :: "pattern \<Rightarrow> string list" where
  "response_patterns P_greeting =
     [''Purr... Welcome to CATSEEK R1!'', ''Meow! How can I help?'', ''*head bump* Hello!'']"
| "response_patterns P_question =
     [''Based on my feline calculations:'', ''Paws-itive analysis suggests:'',
      ''The cat dimension reveals:'']"
| "response_patterns P_technical =
     [''NPU matrix calculations complete:'', ''Neural whiskers indicate:'',
      ''Quantum cat superposition shows:'']"

definition npu_category :: "string \<Rightarrow> pattern" where
  "npu_category input_text =
     (if any_greet input_text then P_greeting
      else if str_in ''?'' input_text then P_question
      else P_technical)"

text \<open>
  The raw draws of one call of \<open>NPUModel.generate_response\<close>: the template, the four
  metric values, and the two picks of \<open>random.sample\<close>.
\<close>

record draws =
  d_template :: nat
  d_temp :: nat
  d_load :: nat
  d_memory :: nat
  d_time :: nat
  d_pick0 :: nat
  d_pick1 :: nat

text \<open>
  The list \<open>components\<close> of \<open>_generate_technical_response\<close>. The inference time is
  \<open>random.uniform(0.1, 0.9)\<close> printed with one decimal; the float itself is not modelled,
  only its printed form, one of \<open>0.1\<close> .. \<open>0.9\<close>.
\<close>

definition components :: "draws \<Rightarrow> string list" where
  "components r =
     [''core temp: '' @ str_nat (randint 30 45 (d_temp r)) @ [CHR 0xB0] @ ''C'',
      ''NPU load: '' @ str_nat (randint 10 95 (d_load r)) @ ''%'',
      ''memory usage: '' @ str_nat (randint 1 8 (d_memory r)) @ ''GB'',
      ''inference time: 0.'' @ str_nat (randint 1 9 (d_time r)) @ ''s'']"

definition generate_technical_response :: "draws \<Rightarrow> py_error + string" where
  "generate_technical_response r =
     (case sample2 (components r) (d_pick0 r) (d_pick1 r) of
        Inl e \<Rightarrow> Inl e
      | Inr picked \<Rightarrow> Inr (''[System: '' @ join '' | '' picked @ '']''))"

text \<open>
  \<open>NPUModel.generate_response\<close>; the first argument is \<open>self.initialized\<close>. The call of
  \<open>time.sleep(0.8)\<close> takes time and changes nothing.
\<close>

definition npu_generate_response :: "bool \<Rightarrow> string \<Rightarrow> draws \<Rightarrow> py_error + string" where
  "npu_generate_response initialized input_text r =
     (if \<not> initialized then Inr ''Error: Model not loaded''
      else case choice (response_patterns (npu_category input_text)) (d_template r) of
             Inl e \<Rightarrow> Inl e
           | Inr template \<Rightarrow>
               (case generate_technical_response r of
                  Inl e \<Rightarrow> Inl e
                | Inr technical \<Rightarrow> Inr (template @ '' '' @ technical)))"

section \<open>CatSEEK.test.py: CatSeekGUI\<close>

text \<open>
  The window is a rendering surface outside the program: a call on a widget, on the timer
  of the event loop or on a thread is recorded in the trace with its arguments, in program
  order, together with the thread that runs it. What the toolkit then draws is not part of
  the embedding. A call returns, except where Tk refuses the index the program passes: a
  call on the chat display whose index is the \<open>None\<close> kept in \<open>typing_id\<close> raises TclError,
  and the call is recorded all the same. The text and the state of the entry and of the
  send button, the pending timers and the started threads are kept in the state, since the
  program reads them or the run depends on them. Building the widgets (frames, fonts, tags,
  labels) is left out.
\<close>

datatype thread = UI | Worker

datatype tkstate = NORMAL | DISABLED

text \<open>What \<open>master.after\<close> is given to call later; what \<open>threading.Thread\<close> is given to run.\<close>

datatype callback = Check_model_status | Animate_typing nat | Hide_typing_indicator

datatype target = Load_model | Run_inference string

datatype effect =
    Chat_configure tkstate
  | Chat_insert_end string string
  | Chat_insert_typing string string
  | Chat_delete_typing nat
  | Chat_see_end
  | Entry_config tkstate
  | Entry_delete
  | Button_config tkstate
  | Status_config string
  | Context_config string
  | After nat callback
  | After_cancel nat
  | Thread_start target

text \<open>
  \<open>Chat_insert_typing\<close> is \<open>chat_display.insert(self.typing_id, ...)\<close>, and
  \<open>Chat_delete_typing n\<close> is \<open>chat_display.delete(self.typing_id, f"{self.typing_id}+nc")\<close>,
  which the program calls with 13 characters.
\<close>

text \<open>
  A value that the program passes as an index of the chat display: the \<open>None\<close> of Python,
  or a string.
\<close>

datatype pyval = PyNone | PyStr string

text \<open>
  The attributes of the object. \<open>typing_id\<close> and \<open>typing_anim\<close> do not exist until they
  are first assigned (\<open>None\<close> of the option type here); \<open>typing_id\<close> holds what
  \<open>Text.insert\<close> returned and \<open>typing_anim\<close> the identifier of a timer.
  \<open>initialized\<close> is \<open>self.mind.model.initialized\<close>.
\<close>

record gui =
  initialized :: bool
  npu_active :: bool
  current_context :: "string list"
  model_ready :: bool
  typing_id :: "pyval option"
  typing_anim :: "nat option"
  user_input :: string
  user_input_state :: tkstate
  send_btn_state :: tkstate
  timers :: "(nat \<times> callback) list"
  next_timer :: nat
  threads :: "target list"
  trace :: "(thread \<times> effect) list"

text \<open>A method returns, or raises with the state it has reached.\<close>

datatype 's outcome = Returned 's | Raised py_error 's

fun state_of :: "'s outcome \<Rightarrow> 's" where
  "state_of (Returned s) = s"
| "state_of (Raised e s) = s"

text \<open>One statement after another: an exception ends the method.\<close>

fun then_do :: "'s outcome \<Rightarrow> ('s \<Rightarrow> 's outcome) \<Rightarrow> 's outcome" where
  "then_do (Returned s) f = f s"
| "then_do (Raised e s) f = Raised e s"

definition emit :: "thread \<Rightarrow> effect \<Rightarrow> gui \<Rightarrow> gui" where
  "emit th e s = s\<lparr>trace := trace s @ [(th, e)]\<rparr>"

text \<open>\<open>master.after(ms, callback)\<close> returns the identifier of the new timer.\<close>

definition after :: "thread \<Rightarrow> nat \<Rightarrow> callback \<Rightarrow> gui \<Rightarrow> nat \<times> gui" where
  "after th ms cb s =
     (next_timer s,
      emit th (After ms cb)
        (s\<lparr>timers := timers s @ [(next_timer s, cb)], next_timer := next_timer s + 1\<rparr>))"

text \<open>\<open>master.after_cancel(id)\<close>: a timer that has fired or was cancelled is no error.\<close>

definition after_cancel :: "thread \<Rightarrow> nat \<Rightarrow> gui \<Rightarrow> gui" where
  "after_cancel th i s =
     emit th (After_cancel i) (s\<lparr>timers := filter (\<lambda>(j, cb). j \<noteq> i) (timers s)\<rparr>)"

text \<open>\<open>threading.Thread(target=..., daemon=True).start()\<close>.\<close>

definition thread_start :: "thread \<Rightarrow> target \<Rightarrow> gui \<Rightarrow> gui" where
  "thread_start th tg s = emit th (Thread_start tg) (s\<lparr>threads := threads s @ [tg]\<rparr>)"

definition npu_show_message :: "thread \<Rightarrow> string \<Rightarrow> string \<Rightarrow> gui \<Rightarrow> gui" where
  "npu_show_message th text sender s =
     emit th Chat_see_end
       (emit th (Chat_configure DISABLED)
         (emit th (Chat_insert_end ([CHR 0x0A] @ ''['' @ sender @ '']: '' @ text) sender)
           (emit th (Chat_configure NORMAL) s)))"

definition show_system_message :: "thread \<Rightarrow> string \<Rightarrow> gui \<Rightarrow> gui" where
  "show_system_message th text s = npu_show_message th text ''SYSTEM'' s"

definition set_input_state :: "thread \<Rightarrow> bool \<Rightarrow> gui \<Rightarrow> gui" where
  "set_input_state th active s =
     (let state = (if active then NORMAL else DISABLED)
      in emit th (Button_config state)
           (emit th (Entry_config state) (s\<lparr>user_input_state := state\<rparr>)
              \<lparr>send_btn_state := state\<rparr>))"

text \<open>The second argument is the draw of \<open>random.randint(5, 95)\<close>.\<close>

definition update_context_display :: "thread \<Rightarrow> nat \<Rightarrow> gui \<Rightarrow> gui" where
  "update_context_display th d s =
     (let load = randint 5 95 d
      in emit th (Status_config (''NPU Status: Active | Load: '' @ str_nat load @ ''%''))
           (emit th
              (Context_config
                 (''Context: '' @ str_nat (length (current_context s)) @ '' items'')) s))"

definition check_model_status :: "thread \<Rightarrow> gui \<Rightarrow> gui" where
  "check_model_status th s =
     (let s1 =
        (if initialized s \<and> \<not> model_ready s
         then emit th (Status_config ''NPU Status: Active | Load: 0%'')
                (set_input_state th True
                  (show_system_message th ''NPU subsystem ready'' (s\<lparr>model_ready := True\<rparr>)))
         else s)
      in snd (after th 1000 Check_model_status s1))"

text \<open>
  \<open>chat_display.insert(tk.END, chars, tag)\<close> as an expression: the method of tkinter has
  no return statement, its value is \<open>None\<close>.
\<close>

definition chat_insert_end :: "thread \<Rightarrow> string \<Rightarrow> string \<Rightarrow> gui \<Rightarrow> pyval \<times> gui" where
  "chat_insert_end th chars tag s = (PyNone, emit th (Chat_insert_end chars tag) s)"

text \<open>
  \<open>chat_display.delete(self.typing_id, f"{self.typing_id}+13c")\<close> and
  \<open>chat_display.insert(self.typing_id, chars, tag)\<close>. Reading \<open>self.typing_id\<close> raises
  AttributeError when the attribute was never assigned. tkinter hands the arguments to Tk up
  to the first \<open>None\<close>, so with \<open>None\<close> in \<open>typing_id\<close> Tk gets the command without an
  index and refuses it.
\<close>

definition chat_delete_typing :: "thread \<Rightarrow> gui \<Rightarrow> gui outcome" where
  "chat_delete_typing th s =
     (case typing_id s of
        None \<Rightarrow> Raised (AttributeError ''typing_id'') s
      | Some PyNone \<Rightarrow> Raised TclError (emit th (Chat_delete_typing 13) s)
      | Some (PyStr i) \<Rightarrow> Returned (emit th (Chat_delete_typing 13) s))"

definition chat_insert_typing :: "thread \<Rightarrow> string \<Rightarrow> string \<Rightarrow> gui \<Rightarrow> gui outcome" where
  "chat_insert_typing th chars tag s =
     (case typing_id s of
        None \<Rightarrow> Raised (AttributeError ''typing_id'') s
      | Some PyNone \<Rightarrow> Raised TclError (emit th (Chat_insert_typing chars tag) s)
      | Some (PyStr i) \<Rightarrow> Returned (emit th (Chat_insert_typing chars tag) s))"

definition animate_typing :: "thread \<Rightarrow> nat \<Rightarrow> gui \<Rightarrow> gui outcome" where
  "animate_typing th count s =
     (let dots = replicate (count mod 4) (CHR ''.'')
      in then_do (chat_delete_typing th s)
           (\<lambda>s1. then_do
              (chat_insert_typing th ([CHR 0x0A] @ ''[NPU Processing'' @ dots @ '']'')
                 ''STATUS'' s1)
              (\<lambda>s2. let s3 = emit th Chat_see_end s2;
                        (i, s4) = after th 300 (Animate_typing (count + 1)) s3
                    in Returned (s4\<lparr>typing_anim := Some i\<rparr>))))"

definition show_typing_indicator :: "thread \<Rightarrow> gui \<Rightarrow> gui outcome" where
  "show_typing_indicator th s =
     (let (v, s1) = chat_insert_end th ([CHR 0x0A] @ ''[NPU Processing'') ''STATUS'' s
      in animate_typing th 0 (s1\<lparr>typing_id := Some v\<rparr>))"

text \<open>\<open>hasattr(self, 'typing_anim')\<close> guards the cancellation only.\<close>

definition hide_typing_indicator :: "thread \<Rightarrow> gui \<Rightarrow> gui outcome" where
  "hide_typing_indicator th s =
     (let s1 = (case typing_anim s of None \<Rightarrow> s | Some i \<Rightarrow> after_cancel th i s)
      in chat_delete_typing th s1)"

text \<open>The third argument is the draw of \<open>_update_context_display\<close>.\<close>

definition handle_model_response :: "thread \<Rightarrow> string \<Rightarrow> nat \<Rightarrow> gui \<Rightarrow> gui" where
  "handle_model_response th response d s =
     (let s1 = snd (after th 0 Hide_typing_indicator s);
          s2 = npu_show_message th response ''NPU'' s1;
          s3 = s2\<lparr>current_context := current_context s2 @ [response]\<rparr>
      in update_context_display th d s3)"

text \<open>
  \<open>CatMind.generate_response(input_text, callback)\<close> starts a thread that runs
  \<open>run_inference\<close>; its only caller passes \<open>self._handle_model_response\<close> as the callback.
\<close>

definition catmind_generate_response :: "thread \<Rightarrow> string \<Rightarrow> gui \<Rightarrow> gui" where
  "catmind_generate_response th input_text s = thread_start th (Run_inference input_text) s"

text \<open>
  The body of that thread: it calls the model and then the callback, both on the worker
  thread. An exception of the model leaves the thread before the callback.
\<close>

definition run_inference :: "string \<Rightarrow> draws \<Rightarrow> nat \<Rightarrow> gui \<Rightarrow> gui outcome" where
  "run_inference input_text r d s =
     (case npu_generate_response (initialized s) input_text r of
        Inl e \<Rightarrow> Raised e s
      | Inr response \<Rightarrow> Returned (handle_model_response Worker response d s))"

text \<open>\<open>NPUModel.initialize_model\<close>, after its \<open>time.sleep(2)\<close>.\<close>

definition initialize_model :: "gui \<Rightarrow> gui" where
  "initialize_model s = s\<lparr>initialized := True\<rparr>"

text \<open>
  \<open>send_message\<close> reads the entry with \<open>self.user_input.get()\<close>; the second argument is
  the draw of \<open>_update_context_display\<close>.
\<close>

definition npu_send_message :: "thread \<Rightarrow> nat \<Rightarrow> gui \<Rightarrow> gui outcome" where
  "npu_send_message th d s =
     (let user_text = strip (user_input s)
      in if user_text = [] \<or> \<not> model_ready s then Returned s
         else
           (let s1 = npu_show_message th user_text ''USER'' s;
                s2 = emit th Entry_delete (s1\<lparr>user_input := []\<rparr>);
                s3 = s2\<lparr>current_context := current_context s2 @ [user_text]\<rparr>;
                s4 = update_context_display th d s3
            in then_do (show_typing_indicator th s4)
                 (\<lambda>s5. Returned (catmind_generate_response th user_text s5))))"

text \<open>
  \<open>CatSeekGUI.__init__\<close>: the attributes, \<open>_set_input_state(False)\<close> from
  \<open>_create_input_system\<close>, the loading thread of \<open>CatMind()\<close>, the first system message
  and the first status check.
\<close>

definition gui_blank :: gui where
  "gui_blank =
     \<lparr>initialized = False, npu_active = False, current_context = [], model_ready = False,
      typing_id = None, typing_anim = None, user_input = [], user_input_state = NORMAL,
      send_btn_state = NORMAL, timers = [], next_timer = 0, threads = [], trace = []\<rparr>"

definition gui_init :: gui where
  "gui_init =
     check_model_status UI
       (show_system_message UI ''Initializing NPU subsystem...''
         (thread_start UI Load_model (set_input_state UI False gui_blank)))"

subsection \<open>The event loop and the threads\<close>

text \<open>
  What can happen after \<open>__init__\<close>: the loading thread finishes; the user puts a text in
  the entry and sends it (the event is not gated on the state of the widgets, the check
  belongs to \<open>send_message\<close>); a pending timer fires and its callback runs on the UI thread;
  an inference thread runs to its end. An exception of a callback is reported by the
  toolkit and the loop goes on; an exception on a thread ends that thread.
\<close>

datatype event =
    Model_loaded
  | User_submit string nat
  | Timer_fires nat
  | Inference_done nat draws nat

fun run_callback :: "callback \<Rightarrow> gui \<Rightarrow> gui outcome" where
  "run_callback Check_model_status s = Returned (check_model_status UI s)"
| "run_callback (Animate_typing count) s = animate_typing UI count s"
| "run_callback Hide_typing_indicator s = hide_typing_indicator UI s"

fun step :: "event \<Rightarrow> gui \<Rightarrow> gui" where
  "step Model_loaded s =
     (if Load_model \<in> set (threads s)
      then initialize_model (s\<lparr>threads := remove1 Load_model (threads s)\<rparr>) else s)"
| "step (User_submit text d) s = state_of (npu_send_message UI d (s\<lparr>user_input := text\<rparr>))"
| "step (Timer_fires i) s =
     (case map_of (timers s) i of
        None \<Rightarrow> s
      | Some cb \<Rightarrow>
          state_of (run_callback cb (s\<lparr>timers := filter (\<lambda>(j, c). j \<noteq> i) (timers s)\<rparr>)))"
| "step (Inference_done k r d) s =
     (if k < length (threads s)
      then (case threads s ! k of
              Load_model \<Rightarrow> s
            | Run_inference input_text \<Rightarrow>
                state_of
                  (run_inference input_text r d
                     (s\<lparr>threads := take k (threads s) @ drop (Suc k) (threads s)\<rparr>)))
      else s)"

fun run :: "event list \<Rightarrow> gui \<Rightarrow> gui" where
  "run [] s = s"
| "run (e # es) s = run es (step e s)"

text \<open>How often \<open>_set_input_state(True)\<close> has configured the entry.\<close>

definition enable_count :: "gui \<Rightarrow> nat" where
  "enable_count s = length (filter (\<lambda>(th, e). e = Entry_config NORMAL) (trace s))"

text \<open>
  How many messages \<open>_show_message\<close> has put in the chat display under a tag (\<open>USER\<close>,
  \<open>NPU\<close>, \<open>SYSTEM\<close>); the placeholder of the indicator has the tag \<open>STATUS\<close>.
\<close>

fun inserted_as :: "string \<Rightarrow> thread \<times> effect \<Rightarrow> bool" where
  "inserted_as tag (th, Chat_insert_end text tg) = (tg = tag)"
| "inserted_as tag (th, e) = False"

definition message_count :: "string \<Rightarrow> gui \<Rightarrow> nat" where
  "message_count tag s = length (filter (inserted_as tag) (trace s))"

section \<open>CatSEEKR1.py: CatSeekGUI\<close>

text \<open>
  The variant without a backend runs on the UI thread alone: the trace has no thread.
  Here too a call is recorded whether Tk accepts it or not. The decorative window of
  \<open>start_imagination\<close> is left out.
\<close>

datatype r1_callback = Cb_animate nat | Cb_generate_response string

datatype r1_effect =
    R1_chat_configure tkstate
  | R1_chat_insert_end string string
  | R1_chat_delete_typing
  | R1_chat_tag_add_typing
  | R1_chat_yview_end
  | R1_entry_delete
  | R1_after nat r1_callback
  | R1_after_cancel nat

record r1_gui =
  imagination_running :: bool
  typing_animation :: "nat option"
  r1_user_input :: string
  r1_timers :: "(nat \<times> r1_callback) list"
  r1_next_timer :: nat
  r1_trace :: "r1_effect list"

definition r1_emit :: "r1_effect \<Rightarrow> r1_gui \<Rightarrow> r1_gui" where
  "r1_emit e s = s\<lparr>r1_trace := r1_trace s @ [e]\<rparr>"

definition r1_after :: "nat \<Rightarrow> r1_callback \<Rightarrow> r1_gui \<Rightarrow> nat \<times> r1_gui" where
  "r1_after ms cb s =
     (r1_next_timer s,
      r1_emit (R1_after ms cb)
        (s\<lparr>r1_timers := r1_timers s @ [(r1_next_timer s, cb)],
           r1_next_timer := r1_next_timer s + 1\<rparr>))"

definition r1_after_cancel :: "nat \<Rightarrow> r1_gui \<Rightarrow> r1_gui" where
  "r1_after_cancel i s =
     r1_emit (R1_after_cancel i) (s\<lparr>r1_timers := filter (\<lambda>(j, cb). j \<noteq> i) (r1_timers s)\<rparr>)"

definition r1_show_message :: "string \<Rightarrow> string \<Rightarrow> r1_gui \<Rightarrow> r1_gui" where
  "r1_show_message text sender s =
     r1_emit R1_chat_yview_end
       (r1_emit (R1_chat_configure DISABLED)
         (r1_emit (R1_chat_insert_end ([CHR 0x0A] @ text @ [CHR 0x0A]) sender)
           (r1_emit (R1_chat_configure NORMAL) s)))"

text \<open>
  \<open>chat_display.delete("typing")\<close>: the argument of \<open>delete\<close> is an index, and the bare
  name of a tag is none (Tk knows \<open>typing.first\<close> and \<open>typing.last\<close>), so Tk refuses the
  command.
\<close>

definition r1_chat_delete_typing :: "r1_gui \<Rightarrow> r1_gui outcome" where
  "r1_chat_delete_typing s = Raised TclError (r1_emit R1_chat_delete_typing s)"

text \<open>The local function \<open>animate\<close> of \<open>_show_typing\<close>.\<close>

definition r1_animate :: "nat \<Rightarrow> r1_gui \<Rightarrow> r1_gui outcome" where
  "r1_animate count s =
     (let dots = [[], ''.'', ''..'', ''...''];
          s1 = r1_emit (R1_chat_configure NORMAL) s
      in then_do (r1_chat_delete_typing s1)
           (\<lambda>s2. let s3 = r1_emit
                            (R1_chat_insert_end
                               ([CHR 0x0A] @ ''Cat is thinking'' @ dots ! (count mod 4)) ''bot'')
                            s2;
                      s4 = r1_emit R1_chat_tag_add_typing s3;
                      s5 = r1_emit (R1_chat_configure DISABLED) s4;
                      s6 = r1_emit R1_chat_yview_end s5;
                      (i, s7) = r1_after 300 (Cb_animate (count + 1)) s6
                  in Returned (s7\<lparr>typing_animation := Some i\<rparr>)))"

definition r1_show_typing :: "r1_gui \<Rightarrow> r1_gui outcome" where
  "r1_show_typing s = r1_animate 0 s"

definition r1_send_message :: "r1_gui \<Rightarrow> r1_gui outcome" where
  "r1_send_message s =
     (let user_text = strip (r1_user_input s)
      in if user_text = [] then Returned s
         else
           (let s1 = r1_show_message user_text ''user'' s;
                s2 = r1_emit R1_entry_delete (s1\<lparr>r1_user_input := []\<rparr>)
            in then_do (r1_show_typing s2)
                 (\<lambda>s3. Returned (snd (r1_after 800 (Cb_generate_response user_text) s3)))))"

text \<open>
  \<open>CatSeekGUI._generate_response\<close>; the second argument is the draw of
  \<open>random.choice\<close>. \<open>typing_animation\<close> is \<open>None\<close> from \<open>__init__\<close> on, or a timer
  identifier, which is a non-empty string and so true.
\<close>

definition r1_gui_generate_response :: "string \<Rightarrow> nat \<Rightarrow> r1_gui \<Rightarrow> r1_gui outcome" where
  "r1_gui_generate_response user_text d s =
     then_do
       (case typing_animation s of
          None \<Rightarrow> Returned s
        | Some i \<Rightarrow> r1_chat_delete_typing (r1_after_cancel i s))
       (\<lambda>s1. case r1_generate_response user_text d of
                Inl e \<Rightarrow> Raised e s1
              | Inr response \<Rightarrow> Returned (r1_show_message response ''bot'' s1))"

definition r1_gui_init :: r1_gui where
  "r1_gui_init =
     r1_show_message ''Hi I'm Catseek. How can I help you today?'' ''bot''
       \<lparr>imagination_running = False, typing_animation = None, r1_user_input = [],
        r1_timers = [], r1_next_timer = 0, r1_trace = []\<rparr>"

section \<open>The readiness invariant\<close>

text \<open>
  What every state of a run satisfies: the entry was enabled once if \<open>model_ready\<close> is
  set and never otherwise, \<open>model_ready\<close> is only set after the model was loaded, and the
  input widgets are disabled until then.
\<close>

definition ready_inv :: "gui \<Rightarrow> bool" where
  "ready_inv s \<longleftrightarrow>
     enable_count s = (if model_ready s then 1 else 0) \<and>
     (model_ready s \<longrightarrow> initialized s) \<and>
     (\<not> model_ready s \<longrightarrow> user_input_state s = DISABLED \<and> send_btn_state s = DISABLED)"

text \<open>
  The timers of a run: identifiers are handed out once, \<open>typing_anim\<close> never names the
  timer of the status check, and a status check is always pending.
\<close>

definition timers_ok :: "gui \<Rightarrow> bool" where
  "timers_ok s \<longleftrightarrow>
     distinct (map fst (timers s)) \<and>
     (\<forall>(j, cb) \<in> set (timers s). j < next_timer s) \<and>
     (\<forall>i. typing_anim s = Some i \<longrightarrow>
        i < next_timer s \<and> (i, Check_model_status) \<notin> set (timers s))"

definition poll_inv :: "gui \<Rightarrow> bool" where
  "poll_inv s \<longleftrightarrow> timers_ok s \<and> (\<exists>i. (i, Check_model_status) \<in> set (timers s))"

text \<open>What the status check does on the poll that first sees the model loaded.\<close>

definition ready_effects :: "(thread \<times> effect) list" where
  "ready_effects =
     [(UI, Chat_configure NORMAL),
      (UI, Chat_insert_end ([CHR 0x0A] @ ''[SYSTEM]: NPU subsystem ready'') ''SYSTEM''),
      (UI, Chat_configure DISABLED), (UI, Chat_see_end),
      (UI, Entry_config NORMAL), (UI, Button_config NORMAL),
      (UI, Status_config ''NPU Status: Active | Load: 0%'')]"

section \<open>Strings and random picks\<close>

lemma startswith_iff: "startswith s p \<longleftrightarrow> (\<exists>post. s = p @ post)"
  by (induction s p rule: startswith.induct) auto

lemma str_in_iff: "str_in sub s \<longleftrightarrow> (\<exists>pre post. s = pre @ sub @ post)"
proof (induction s)
  case Nil
  show ?case by auto
next
  case (Cons c cs)
  show ?case
  proof
    assume "str_in sub (c # cs)"
    then consider "startswith (c # cs) sub" | "str_in sub cs" by auto
    then show "\<exists>pre post. c # cs = pre @ sub @ post"
    proof cases
      case 1
      then obtain post where "c # cs = sub @ post" by (auto simp: startswith_iff)
      then have "c # cs = [] @ sub @ post" by simp
      then show ?thesis by blast
    next
      case 2
      then obtain pre post where "cs = pre @ sub @ post" using Cons.IH by blast
      then have "c # cs = (c # pre) @ sub @ post" by simp
      then show ?thesis by blast
    qed
  next
    assume "\<exists>pre post. c # cs = pre @ sub @ post"
    then obtain pre post where e: "c # cs = pre @ sub @ post" by blast
    show "str_in sub (c # cs)"
    proof (cases pre)
      case Nil
      with e have "startswith (c # cs) sub" by (auto simp: startswith_iff)
      then show ?thesis by simp
    next
      case (Cons a pre')
      with e have "cs = pre' @ sub @ post" by simp
      then have "str_in sub cs" using Cons.IH by blast
      then show ?thesis by simp
    qed
  qed
qed

lemma str_in_char: "str_in [c] s \<longleftrightarrow> c \<in> set s"
  by (induction s) auto

lemma any_greet_iff:
  "any_greet input_text \<longleftrightarrow>
     (\<exists>g \<in> set greets. \<exists>pre post. lower input_text = pre @ g @ post)"
  unfolding any_greet_def list_ex_iff str_in_iff ..

lemma strip_blank: "(\<forall>c \<in> set s. isspace c) \<Longrightarrow> strip s = []"
proof -
  assume "\<forall>c \<in> set s. isspace c"
  then have d: "dropWhile isspace s = []" by (metis dropWhile_eq_Nil_conv)
  show ?thesis unfolding strip_def d by simp
qed

lemma strip_blank_iff: "strip s = [] \<longleftrightarrow> (\<forall>c \<in> set s. isspace c)"
proof
  assume "strip s = []"
  then have "dropWhile isspace (rev (dropWhile isspace s)) = []" by (simp add: strip_def)
  then have "\<forall>c \<in> set (rev (dropWhile isspace s)). isspace c"
    by simp
  then have "dropWhile isspace s = []"
    by (metis hd_dropWhile list.set_sel(1) set_rev)
  then show "\<forall>c \<in> set s. isspace c" by simp
qed (rule strip_blank)

lemma choice_nonempty: "xs \<noteq> [] \<Longrightarrow> \<exists>x \<in> set xs. choice xs d = Inr x"
  by (simp add: choice_def)

lemma response_patterns_nonempty: "response_patterns p \<noteq> []"
  by (cases p) simp_all

lemma responses_nonempty: "responses c \<noteq> []"
  by (cases c) simp_all

lemma sample2_picks:
  assumes "2 \<le> length xs"
  shows "\<exists>i j. i < length xs \<and> j < length xs \<and> i \<noteq> j \<and>
           sample2 xs d0 d1 = Inr [xs ! i, xs ! j]"
proof -
  define n where "n = length xs"
  define j0 where "j0 = d0 mod n"
  define j1 where "j1 = d1 mod (n - 1)"
  define j where "j = (if j1 = j0 then n - 1 else j1)"
  have n2: "2 \<le> n" using assms by (simp add: n_def)
  have b0: "j0 < n" using n2 by (simp add: j0_def)
  have b1: "j1 < n - 1" using n2 by (simp add: j1_def)
  have bj: "j < n" using b1 n2 unfolding j_def by (cases "j1 = j0") simp_all
  have ne: "j0 \<noteq> j" using b1 by (auto simp: j_def)
  have "(xs[j0 := xs ! (n - 1)]) ! j1 = xs ! j"
    using b0 b1 by (simp add: j_def n_def nth_list_update)
  then have "sample2 xs d0 d1 = Inr [xs ! j0, xs ! j]"
    using n2 by (simp add: sample2_def Let_def n_def j0_def j1_def)
  then show ?thesis using b0 bj ne unfolding n_def by blast
qed

section \<open>NPUModel.generate_response\<close>

lemma components_length: "length (components r) = 4"
  by (simp add: components_def)

lemma components_distinct: "distinct (components r)"
  by (simp add: components_def)

lemma components_names:
  "list_all2 startswith (components r)
     [''core temp: '', ''NPU load: '', ''memory usage: '', ''inference time: '']"
  by (simp add: components_def)

lemma technical_shape:
  "\<exists>i j. i < 4 \<and> j < 4 \<and> i \<noteq> j \<and>
     generate_technical_response r =
       Inr (''[System: '' @ components r ! i @ '' | '' @ components r ! j @ '']'')"
proof -
  have "2 \<le> length (components r)" by (simp add: components_length)
  from sample2_picks [OF this, of "d_pick0 r" "d_pick1 r"]
  obtain i j where "i < 4" "j < 4" "i \<noteq> j"
    "sample2 (components r) (d_pick0 r) (d_pick1 r) = Inr [components r ! i, components r ! j]"
    by (auto simp: components_length)
  then show ?thesis by (auto simp: generate_technical_response_def)
qed

lemma npu_response_loaded:
  "\<exists>template i j.
     template \<in> set (response_patterns (npu_category input_text)) \<and>
     i < 4 \<and> j < 4 \<and> i \<noteq> j \<and>
     npu_generate_response True input_text r =
       Inr (template @ '' [System: '' @ components r ! i @ '' | '' @ components r ! j @ '']'')"
proof -
  obtain template where t: "template \<in> set (response_patterns (npu_category input_text))"
    "choice (response_patterns (npu_category input_text)) (d_template r) = Inr template"
    using choice_nonempty [OF response_patterns_nonempty] by blast
  obtain i j where ij: "i < 4" "j < 4" "i \<noteq> j"
    "generate_technical_response r =
       Inr (''[System: '' @ components r ! i @ '' | '' @ components r ! j @ '']'')"
    using technical_shape by blast
  have "npu_generate_response True input_text r =
          Inr (template @ '' [System: '' @ components r ! i @ '' | '' @ components r ! j @ '']'')"
    using t(2) ij(4) by (simp add: npu_generate_response_def)
  with t(1) ij(1-3) show ?thesis by blast
qed

lemma npu_response_not_loaded:
  "npu_generate_response False input_text r = Inr ''Error: Model not loaded''"
  by (simp add: npu_generate_response_def)

lemma npu_response_returns: "\<exists>response. npu_generate_response b input_text r = Inr response"
proof (cases b)
  case True
  then show ?thesis using npu_response_loaded [of input_text r] by auto
next
  case False
  then show ?thesis by (simp add: npu_response_not_loaded)
qed

lemmas gui_defs = emit_def after_def after_cancel_def thread_start_def npu_show_message_def
  show_system_message_def set_input_state_def update_context_display_def
  check_model_status_def chat_insert_end_def chat_delete_typing_def chat_insert_typing_def
  animate_typing_def show_typing_indicator_def
  hide_typing_indicator_def handle_model_response_def catmind_generate_response_def
  run_inference_def initialize_model_def npu_send_message_def

text \<open>The state that \<open>__init__\<close> leaves.\<close>

lemma gui_init_value:
  "gui_init =
     \<lparr>initialized = False, npu_active = False, current_context = [], model_ready = False,
      typing_id = None, typing_anim = None, user_input = [], user_input_state = DISABLED,
      send_btn_state = DISABLED, timers = [(0, Check_model_status)], next_timer = 1,
      threads = [Load_model],
      trace = [(UI, Entry_config DISABLED), (UI, Button_config DISABLED),
               (UI, Thread_start Load_model), (UI, Chat_configure NORMAL),
               (UI, Chat_insert_end ([CHR 0x0A] @ ''[SYSTEM]: Initializing NPU subsystem...'')
                      ''SYSTEM''),
               (UI, Chat_configure DISABLED), (UI, Chat_see_end),
               (UI, After 1000 Check_model_status)]\<rparr>"
  by (simp add: gui_init_def gui_blank_def gui_defs)

text \<open>
  C6. Whatever the input text, when \<open>initialized\<close> is false \<open>generate_response\<close> returns
  exactly the string "Error: Model not loaded" and raises nothing; the inference thread
  hands that string to the callback like any other response.
\<close>

theorem not_loaded_sentinel:
  assumes "\<not> is_initialized" and "\<not> initialized s"
  shows "npu_generate_response is_initialized input_text r = Inr ''Error: Model not loaded'' \<and>
         run_inference input_text r d s =
           Returned (handle_model_response Worker ''Error: Model not loaded'' d s)"
  using assms by (simp add: npu_generate_response_def run_inference_def)

theorem not_loaded_sentinel_witness:
  "\<not> False \<and> \<not> initialized gui_init \<and>
   npu_generate_response False ''hello''
     \<lparr>d_template = 1, d_temp = 3, d_load = 7, d_memory = 2, d_time = 4, d_pick0 = 3,
      d_pick1 = 5\<rparr> = Inr ''Error: Model not loaded''"
proof -
  have a: "\<not> False" by simp
  have b: "\<not> initialized gui_init" by (simp add: gui_init_value)
  show ?thesis using not_loaded_sentinel [OF a b] b by blast
qed

text \<open>
  C9. When the model is loaded, every response is a template of the chosen category, a
  space, and the suffix \<open>[System: m | m']\<close> where \<open>m\<close> and \<open>m'\<close> stand at two different
  places of the four components; the components are four different strings that begin
  with core temp, NPU load, memory usage and inference time.
\<close>

theorem ready_response_shape:
  assumes "is_initialized"
  shows "(\<exists>template i j.
            template \<in> set (response_patterns (npu_category input_text)) \<and>
            i < 4 \<and> j < 4 \<and> i \<noteq> j \<and>
            npu_generate_response is_initialized input_text r =
              Inr (template @ '' [System: '' @ components r ! i @ '' | '' @
                   components r ! j @ '']'')) \<and>
         length (components r) = 4 \<and> distinct (components r) \<and>
         list_all2 startswith (components r)
           [''core temp: '', ''NPU load: '', ''memory usage: '', ''inference time: '']"
proof -
  have "is_initialized = True" using assms by simp
  then show ?thesis
    using npu_response_loaded [of input_text r] components_length components_distinct
      components_names by simp
qed

theorem ready_response_shape_witness:
  "True \<and>
   npu_generate_response True ''this''
     \<lparr>d_template = 1, d_temp = 3, d_load = 7, d_memory = 2, d_time = 4, d_pick0 = 3,
      d_pick1 = 5\<rparr> =
     Inr ''Meow! How can I help? [System: inference time: 0.5s | memory usage: 3GB]'' \<and>
   length (components
     \<lparr>d_template = 1, d_temp = 3, d_load = 7, d_memory = 2, d_time = 4, d_pick0 = 3,
      d_pick1 = 5\<rparr>) = 4"
proof -
  have v: "npu_generate_response True ''this''
     \<lparr>d_template = 1, d_temp = 3, d_load = 7, d_memory = 2, d_time = 4, d_pick0 = 3,
      d_pick1 = 5\<rparr> =
     Inr ''Meow! How can I help? [System: inference time: 0.5s | memory usage: 3GB]''"
    by code_simp
  show ?thesis
    using v ready_response_shape [OF TrueI, of "''this''"
      "\<lparr>d_template = 1, d_temp = 3, d_load = 7, d_memory = 2, d_time = 4, d_pick0 = 3,
      d_pick1 = 5\<rparr>"] by blast
qed

text \<open>
  C10. Greeting detection is a substring test on the lowercased input: an input whose
  lowercase form contains hi, hello or hey anywhere is a greeting for the backend variant,
  and for the simple variant when the input has no question mark.
\<close>

theorem substring_greeting:
  assumes "g \<in> set greets" and "lower input_text = pre @ g @ post"
  shows "npu_category input_text = P_greeting \<and>
         (CHR ''?'' \<notin> set input_text \<longrightarrow> r1_category input_text = C_hello)"
proof -
  have "any_greet input_text" using assms any_greet_iff by blast
  then show ?thesis by (simp add: npu_category_def r1_category_def str_in_char)
qed

theorem substring_greeting_witness:
  "''hi'' \<in> set greets \<and> lower ''I think so'' = ''i t'' @ ''hi'' @ ''nk so'' \<and>
   CHR ''?'' \<notin> set ''I think so'' \<and>
   npu_category ''I think so'' = P_greeting \<and> r1_category ''I think so'' = C_hello"
proof -
  have a: "''hi'' \<in> set greets" by (simp add: greets_def)
  have b: "lower ''I think so'' = ''i t'' @ ''hi'' @ ''nk so''" by code_simp
  have c: "CHR ''?'' \<notin> set ''I think so''" by simp
  show ?thesis using substring_greeting [OF a b] a b c by blast
qed

section \<open>The backend variant: runs of the window\<close>

lemma ready_inv_init: "ready_inv gui_init"
  by (simp add: ready_inv_def gui_init_value enable_count_def)

lemma ready_inv_check: "ready_inv s \<Longrightarrow> ready_inv (check_model_status th s)"
  by (auto simp: ready_inv_def enable_count_def gui_defs Let_def)

lemma ready_inv_animate: "ready_inv s \<Longrightarrow> ready_inv (state_of (animate_typing th n s))"
  by (auto simp: ready_inv_def enable_count_def gui_defs Let_def split: option.splits pyval.splits)

lemma ready_inv_hide: "ready_inv s \<Longrightarrow> ready_inv (state_of (hide_typing_indicator th s))"
  by (auto simp: ready_inv_def enable_count_def gui_defs Let_def split: option.splits pyval.splits)

lemma ready_inv_send: "ready_inv s \<Longrightarrow> ready_inv (state_of (npu_send_message th d s))"
  by (auto simp: ready_inv_def enable_count_def gui_defs Let_def split: option.splits pyval.splits)

lemma ready_inv_inference:
  "ready_inv s \<Longrightarrow> ready_inv (state_of (run_inference input_text r d s))"
  by (auto simp: ready_inv_def enable_count_def gui_defs Let_def split: sum.splits)

lemma ready_inv_frame:
  "ready_inv s \<Longrightarrow> ready_inv (s\<lparr>user_input := msg\<rparr>)"
  "ready_inv s \<Longrightarrow> ready_inv (s\<lparr>timers := ts\<rparr>)"
  "ready_inv s \<Longrightarrow> ready_inv (s\<lparr>threads := hs\<rparr>)"
  by (simp_all add: ready_inv_def enable_count_def)

lemma ready_inv_step: "ready_inv s \<Longrightarrow> ready_inv (step e s)"
proof (cases e)
  case Model_loaded
  assume "ready_inv s"
  then show ?thesis using Model_loaded
    by (auto simp: ready_inv_def enable_count_def initialize_model_def)
next
  case (User_submit msg d)
  assume "ready_inv s"
  then show ?thesis using User_submit by (simp add: ready_inv_send ready_inv_frame)
next
  case (Timer_fires i)
  assume a: "ready_inv s"
  show ?thesis
  proof (cases "map_of (timers s) i")
    case None
    then show ?thesis using a Timer_fires by simp
  next
    case (Some cb)
    have "ready_inv (state_of (run_callback cb s'))" if "ready_inv s'" for s'
      using that by (cases cb) (simp_all add: ready_inv_check ready_inv_animate ready_inv_hide)
    then show ?thesis using a Some Timer_fires by (simp add: ready_inv_frame)
  qed
next
  case (Inference_done k r d)
  assume "ready_inv s"
  then show ?thesis using Inference_done
    by (simp add: ready_inv_inference ready_inv_frame split: target.splits)
qed

lemma ready_inv_run: "ready_inv s \<Longrightarrow> ready_inv (run evs s)"
  by (induction evs arbitrary: s) (simp_all add: ready_inv_step)

lemma ready_inv_reachable: "ready_inv (run evs gui_init)"
  by (rule ready_inv_run [OF ready_inv_init])

text \<open>
  C8. When the entry holds only white space (or nothing), \<open>send_message\<close> returns with the
  state it found, in both variants: no message, no context item, no animation, no
  response.
\<close>

theorem blank_submission_ignored:
  assumes "list_all isspace msg"
  shows "npu_send_message th d (s\<lparr>user_input := msg\<rparr>) = Returned (s\<lparr>user_input := msg\<rparr>) \<and>
         r1_send_message (s'\<lparr>r1_user_input := msg\<rparr>) =
           Returned (s'\<lparr>r1_user_input := msg\<rparr>)"
proof -
  have "\<forall>c \<in> set msg. isspace c" using assms by (simp add: list_all_iff)
  then have "strip msg = []" by (rule strip_blank)
  then show ?thesis by (simp add: npu_send_message_def r1_send_message_def)
qed

theorem blank_submission_ignored_witness:
  "list_all isspace ''   '' \<and>
   npu_send_message UI 0 (gui_init\<lparr>user_input := ''   ''\<rparr>) =
     Returned (gui_init\<lparr>user_input := ''   ''\<rparr>) \<and>
   r1_send_message (r1_gui_init\<lparr>r1_user_input := ''   ''\<rparr>) =
     Returned (r1_gui_init\<lparr>r1_user_input := ''   ''\<rparr>)"
proof -
  have h: "list_all isspace ''   ''" by (simp add: isspace_def)
  show ?thesis using blank_submission_ignored [OF h, of UI 0 gui_init r1_gui_init] h by blast
qed

text \<open>
  C7. In every state of a run of the backend variant in which the model is not loaded, or
  is loaded but not yet seen by the status check, sending any text leaves the state as it
  was (no transcript entry, no context item, no thread), and the entry and the send
  button are disabled.
\<close>

theorem not_ready_submission_ignored:
  assumes "\<not> initialized (run evs gui_init) \<or> \<not> model_ready (run evs gui_init)"
  shows "npu_send_message UI d ((run evs gui_init)\<lparr>user_input := msg\<rparr>) =
           Returned ((run evs gui_init)\<lparr>user_input := msg\<rparr>) \<and>
         step (User_submit msg d) (run evs gui_init) = (run evs gui_init)\<lparr>user_input := msg\<rparr> \<and>
         user_input_state (run evs gui_init) = DISABLED \<and>
         send_btn_state (run evs gui_init) = DISABLED"
proof -
  have "ready_inv (run evs gui_init)" by (rule ready_inv_reachable)
  with assms have "\<not> model_ready (run evs gui_init) \<and>
      user_input_state (run evs gui_init) = DISABLED \<and>
      send_btn_state (run evs gui_init) = DISABLED"
    by (auto simp: ready_inv_def)
  then show ?thesis by (simp add: npu_send_message_def)
qed

theorem not_ready_submission_ignored_witness:
  "\<not> model_ready (run [] gui_init) \<and>
   npu_send_message UI 7 ((run [] gui_init)\<lparr>user_input := ''hello''\<rparr>) =
     Returned ((run [] gui_init)\<lparr>user_input := ''hello''\<rparr>) \<and>
   user_input_state (run [] gui_init) = DISABLED"
proof -
  have h: "\<not> initialized (run [] gui_init) \<or> \<not> model_ready (run [] gui_init)"
    by (simp add: gui_init_value)
  have "\<not> model_ready (run [] gui_init)" by (simp add: gui_init_value)
  then show ?thesis using not_ready_submission_ignored [OF h, of 7 "''hello''"] by blast
qed

text \<open>
  C3. The claim: stopping the indicator raises no error, also when it was never started.
  On the window as \<open>__init__\<close> leaves it, \<open>_hide_typing_indicator\<close> skips the cancellation
  (\<open>typing_anim\<close> does not exist) and then raises AttributeError on \<open>self.typing_id\<close>.
\<close>

theorem hide_never_started_raises:
  "hide_typing_indicator UI gui_init = Raised (AttributeError ''typing_id'') gui_init"
  by (simp add: gui_init_value hide_typing_indicator_def chat_delete_typing_def)

text \<open>
  Once the indicator was shown, \<open>typing_id\<close> holds the \<open>None\<close> of \<open>Text.insert\<close> and
  hiding it raises as well, now in Tk.
\<close>

lemma show_then_hide_raises:
  "\<exists>t. show_typing_indicator th s = Raised TclError t \<and> typing_id t = Some PyNone \<and>
       (\<exists>u. hide_typing_indicator th t = Raised TclError u)"
  by (simp add: gui_defs Let_def split: option.splits pyval.splits)

text \<open>
  C5. The claim: no widget is touched from the worker thread. Whenever an inference
  thread runs to its end, it has itself inserted the response into the chat display.
\<close>

theorem worker_thread_touches_widgets:
  "\<exists>response.
     (Worker, Chat_insert_end ([CHR 0x0A] @ ''[NPU]: '' @ response) ''NPU'')
       \<in> set (trace (state_of (run_inference input_text r d s)))"
proof -
  obtain response where "npu_generate_response (initialized s) input_text r = Inr response"
    using npu_response_returns by blast
  then show ?thesis by (auto simp: gui_defs Let_def)
qed

section \<open>The status check\<close>

lemma distinct_filter_fst: "distinct (map fst ts) \<Longrightarrow> distinct (map fst (filter P ts))"
  by (induction ts) auto

lemma timers_ok_check: "timers_ok s \<Longrightarrow> poll_inv (check_model_status th s)"
  by (fastforce simp: poll_inv_def timers_ok_def gui_defs Let_def)

lemma poll_inv_animate: "poll_inv s \<Longrightarrow> poll_inv (state_of (animate_typing th n s))"
  by (fastforce simp: poll_inv_def timers_ok_def gui_defs Let_def split: option.splits pyval.splits)

lemma poll_inv_hide: "poll_inv s \<Longrightarrow> poll_inv (state_of (hide_typing_indicator th s))"
  by (fastforce simp: poll_inv_def timers_ok_def gui_defs Let_def distinct_filter_fst split: option.splits pyval.splits)

lemma poll_inv_send: "poll_inv s \<Longrightarrow> poll_inv (state_of (npu_send_message th d s))"
  by (fastforce simp: poll_inv_def timers_ok_def gui_defs Let_def split: option.splits pyval.splits)

lemma poll_inv_inference: "poll_inv s \<Longrightarrow> poll_inv (state_of (run_inference input_text r d s))"
  by (fastforce simp: poll_inv_def timers_ok_def gui_defs Let_def split: sum.splits)


lemma poll_inv_frame:
  "poll_inv s \<Longrightarrow> poll_inv (s\<lparr>user_input := msg\<rparr>)"
  "poll_inv s \<Longrightarrow> poll_inv (s\<lparr>threads := hs\<rparr>)"
  "poll_inv s \<Longrightarrow> poll_inv (s\<lparr>initialized := b\<rparr>)"
  by (simp_all add: poll_inv_def timers_ok_def)

lemma timers_ok_remove:
  "timers_ok s \<Longrightarrow> timers_ok (s\<lparr>timers := filter (\<lambda>(j, c). j \<noteq> i) (timers s)\<rparr>)"
  by (auto simp: timers_ok_def distinct_filter_fst)

lemma poll_inv_remove:
  assumes "poll_inv s" and "map_of (timers s) i = Some cb" and "cb \<noteq> Check_model_status"
  shows "poll_inv (s\<lparr>timers := filter (\<lambda>(j, c). j \<noteq> i) (timers s)\<rparr>)"
proof -
  have d: "distinct (map fst (timers s))" using assms(1) by (simp add: poll_inv_def timers_ok_def)
  obtain k where k: "(k, Check_model_status) \<in> set (timers s)"
    using assms(1) by (auto simp: poll_inv_def)
  have "(i, cb) \<in> set (timers s)" using assms(2) by (rule map_of_SomeD)
  with d k assms(3) have "k \<noteq> i" by (auto dest: eq_key_imp_eq_value)
  with k have "(k, Check_model_status) \<in> set (filter (\<lambda>(j, c). j \<noteq> i) (timers s))" by simp
  moreover have "timers_ok (s\<lparr>timers := filter (\<lambda>(j, c). j \<noteq> i) (timers s)\<rparr>)"
    using assms(1) by (simp add: poll_inv_def timers_ok_remove)
  ultimately show ?thesis unfolding poll_inv_def by auto
qed

lemma poll_inv_step: "poll_inv s \<Longrightarrow> poll_inv (step e s)"
proof (cases e)
  case Model_loaded
  assume "poll_inv s"
  then show ?thesis using Model_loaded by (simp add: initialize_model_def poll_inv_frame)
next
  case (User_submit msg d)
  assume "poll_inv s"
  then show ?thesis using User_submit by (simp add: poll_inv_send poll_inv_frame)
next
  case (Timer_fires i)
  assume a: "poll_inv s"
  show ?thesis
  proof (cases "map_of (timers s) i")
    case None
    then show ?thesis using a Timer_fires by simp
  next
    case (Some cb)
    show ?thesis
    proof (cases "cb = Check_model_status")
      case True
      have "timers_ok (s\<lparr>timers := filter (\<lambda>(j, c). j \<noteq> i) (timers s)\<rparr>)"
        using a by (simp add: poll_inv_def timers_ok_remove)
      then show ?thesis using Some True Timer_fires by (simp add: timers_ok_check)
    next
      case False
      have "poll_inv (s\<lparr>timers := filter (\<lambda>(j, c). j \<noteq> i) (timers s)\<rparr>)"
        using a Some False by (rule poll_inv_remove)
      then show ?thesis using Some False Timer_fires
        by (cases cb) (simp_all add: poll_inv_animate poll_inv_hide)
    qed
  qed
next
  case (Inference_done k r d)
  assume "poll_inv s"
  then show ?thesis using Inference_done
    by (simp add: poll_inv_inference poll_inv_frame split: target.splits)
qed

lemma poll_inv_init: "poll_inv gui_init"
  by (simp add: poll_inv_def timers_ok_def gui_init_value)

lemma poll_inv_run: "poll_inv s \<Longrightarrow> poll_inv (run evs s)"
  by (induction evs arbitrary: s) (simp_all add: poll_inv_step)

lemma poll_pending: "\<exists>i. map_of (timers (run evs gui_init)) i = Some Check_model_status"
proof -
  have "poll_inv (run evs gui_init)" by (rule poll_inv_run [OF poll_inv_init])
  then show ?thesis by (auto simp: poll_inv_def timers_ok_def)
qed

lemma check_trace:
  "trace (check_model_status UI s) =
     trace s @ (if initialized s \<and> \<not> model_ready s then ready_effects else []) @
     [(UI, After 1000 Check_model_status)]"
  by (simp add: gui_defs ready_effects_def)

lemma check_ready: "model_ready (check_model_status th s) = (model_ready s \<or> initialized s)"
  by (auto simp: gui_defs)

lemma poll_step:
  "map_of (timers s) i = Some Check_model_status \<Longrightarrow>
   step (Timer_fires i) s =
     check_model_status UI (s\<lparr>timers := filter (\<lambda>(j, c). j \<noteq> i) (timers s)\<rparr>)"
  by simp


lemma run_append: "run (xs @ ys) s = run ys (run xs s)"
  by (induction xs arbitrary: s) simp_all

lemma model_ready_check: "model_ready s \<Longrightarrow> model_ready (check_model_status th s)"
  by (simp add: gui_defs)

lemma model_ready_animate: "model_ready s \<Longrightarrow> model_ready (state_of (animate_typing th n s))"
  by (simp add: gui_defs Let_def split: option.splits pyval.splits)

lemma model_ready_hide: "model_ready s \<Longrightarrow> model_ready (state_of (hide_typing_indicator th s))"
  by (simp add: gui_defs Let_def split: option.splits pyval.splits)

lemma model_ready_send: "model_ready s \<Longrightarrow> model_ready (state_of (npu_send_message th d s))"
  by (simp add: gui_defs Let_def split: option.splits pyval.splits)

lemma model_ready_inference:
  "model_ready s \<Longrightarrow> model_ready (state_of (run_inference input_text r d s))"
  by (simp add: gui_defs Let_def split: sum.splits)

lemma model_ready_step: "model_ready s \<Longrightarrow> model_ready (step e s)"
proof (cases e)
  case Model_loaded
  assume "model_ready s"
  then show ?thesis using Model_loaded by (simp add: initialize_model_def)
next
  case (User_submit msg d)
  assume "model_ready s"
  then show ?thesis using User_submit by (simp add: model_ready_send)
next
  case (Timer_fires i)
  assume a: "model_ready s"
  have "model_ready (state_of (run_callback cb s'))" if "model_ready s'" for s' cb
    using that by (cases cb) (simp_all add: model_ready_check model_ready_animate model_ready_hide)
  then show ?thesis using a Timer_fires by (simp split: option.splits pyval.splits)
next
  case (Inference_done k r d)
  assume "model_ready s"
  then show ?thesis using Inference_done
    by (simp add: model_ready_inference split: target.splits)
qed

lemma model_ready_run: "model_ready s \<Longrightarrow> model_ready (run evs s)"
  by (induction evs arbitrary: s) (simp_all add: model_ready_step)

text \<open>
  C4. Over every run of the backend variant: the entry has been enabled once if
  \<open>model_ready\<close> is set and not at all otherwise, and once it is set the count stays at
  one however the run goes on; a status check is always pending; and when it fires, it
  performs the ready effects (system message, enabling the entry and the button, status
  text) exactly when the model is loaded and \<open>model_ready\<close> is not yet set, and sets
  \<open>model_ready\<close>.
\<close>

theorem readiness_fires_once:
  "enable_count (run evs gui_init) = (if model_ready (run evs gui_init) then 1 else 0) \<and>
   (model_ready (run evs gui_init) \<longrightarrow> enable_count (run (evs @ later) gui_init) = 1) \<and>
   (\<exists>i. map_of (timers (run evs gui_init)) i = Some Check_model_status) \<and>
   (\<forall>i. map_of (timers (run evs gui_init)) i = Some Check_model_status \<longrightarrow>
      trace (step (Timer_fires i) (run evs gui_init)) =
        trace (run evs gui_init) @
        (if initialized (run evs gui_init) \<and> \<not> model_ready (run evs gui_init)
         then ready_effects else []) @
        [(UI, After 1000 Check_model_status)] \<and>
      model_ready (step (Timer_fires i) (run evs gui_init)) =
        (model_ready (run evs gui_init) \<or> initialized (run evs gui_init)))"
proof -
  have c: "enable_count (run es gui_init) = (if model_ready (run es gui_init) then 1 else 0)"
    for es using ready_inv_reachable [of es] by (simp add: ready_inv_def)
  have "model_ready (run (evs @ later) gui_init)" if "model_ready (run evs gui_init)"
    using that by (simp add: run_append model_ready_run)
  then have l: "model_ready (run evs gui_init) \<longrightarrow> enable_count (run (evs @ later) gui_init) = 1"
    using c [of "evs @ later"] by simp
  show ?thesis using c [of evs] l poll_pending [of evs]
    by (simp add: check_trace check_ready del: step.simps add: poll_step)
qed

theorem readiness_fires_once_witness:
  "map_of (timers (run [Model_loaded] gui_init)) 0 = Some Check_model_status \<and>
   initialized (run [Model_loaded] gui_init) \<and> \<not> model_ready (run [Model_loaded] gui_init) \<and>
   enable_count (run [Model_loaded] gui_init) = 0 \<and>
   model_ready (step (Timer_fires 0) (run [Model_loaded] gui_init)) \<and>
   enable_count (run ([Model_loaded, Timer_fires 0] @ [Timer_fires 1, Timer_fires 2]) gui_init) = 1"
proof -
  have a: "map_of (timers (run [Model_loaded] gui_init)) 0 = Some Check_model_status"
    by (simp add: gui_init_value initialize_model_def)
  have b: "initialized (run [Model_loaded] gui_init) \<and> \<not> model_ready (run [Model_loaded] gui_init)"
    by (simp add: gui_init_value initialize_model_def)
  have c: "model_ready (run [Model_loaded, Timer_fires 0] gui_init)"
    by (simp add: gui_init_value gui_defs)
  show ?thesis
    using a b c readiness_fires_once [of "[Model_loaded]" "[]"]
      readiness_fires_once [of "[Model_loaded, Timer_fires 0]" "[Timer_fires 1, Timer_fires 2]"]
    by simp
qed

section \<open>Sending while a turn is pending\<close>

text \<open>
  C2, as the spec states it, fails: after the model is ready and "a" was sent, the chat
  display holds one user message and no response; sending "b" then appends a second user
  message and a second context item.
\<close>

theorem second_submission_counterexample:
  "message_count ''USER'' (run [Model_loaded, Timer_fires 0, User_submit ''a'' 0] gui_init) = 1 \<and>
   message_count ''NPU'' (run [Model_loaded, Timer_fires 0, User_submit ''a'' 0] gui_init) = 0 \<and>
   message_count ''USER''
     (run [Model_loaded, Timer_fires 0, User_submit ''a'' 0, User_submit ''b'' 0] gui_init) = 2 \<and>
   current_context
     (run [Model_loaded, Timer_fires 0, User_submit ''a'' 0, User_submit ''b'' 0] gui_init)
     = [''a'', ''b''] \<and>
   (UI, Chat_insert_end ([CHR 0x0A] @ ''[USER]: b'') ''USER'')
     \<in> set (trace
         (run [Model_loaded, Timer_fires 0, User_submit ''a'' 0, User_submit ''b'' 0] gui_init))"
  by code_simp

text \<open>
  What \<open>send_message\<close> does with a text that is not blank. In the backend variant the
  message and the context item are in place when the indicator raises in Tk, and no
  inference thread is started; in the simple variant the message is in place and no
  response timer is armed.
\<close>

lemma npu_send_value:
  assumes "strip (user_input s) \<noteq> []" and "model_ready s"
  shows "\<exists>t. npu_send_message th d s = Raised TclError t \<and>
           current_context t = current_context s @ [strip (user_input s)] \<and>
           message_count ''USER'' t = message_count ''USER'' s + 1 \<and>
           (th, Chat_insert_end ([CHR 0x0A] @ ''[USER]: '' @ strip (user_input s)) ''USER'')
             \<in> set (trace t) \<and>
           threads t = threads s \<and> timers t = timers s"
  using assms by (simp add: gui_defs Let_def message_count_def)

lemma r1_send_value:
  assumes "strip (r1_user_input s) \<noteq> []"
  shows "\<exists>t. r1_send_message s = Raised TclError t \<and>
           R1_chat_insert_end ([CHR 0x0A] @ strip (r1_user_input s) @ [CHR 0x0A]) ''user''
             \<in> set (r1_trace t) \<and>
           r1_timers t = r1_timers s"
  using assms
  by (simp add: r1_send_message_def r1_show_typing_def r1_animate_def r1_show_message_def
      r1_chat_delete_typing_def r1_emit_def Let_def)

text \<open>
  C2, amended. \<open>send_message\<close> has no check for a pending turn: whenever the trimmed
  entry text is not empty (and, in the backend variant, \<open>model_ready\<close> is set) it appends
  the user message to the chat display (and, in the backend variant, the text to the
  context), in every state, whatever messages still wait for a response.
\<close>

theorem send_message_without_pending_check:
  assumes "strip msg \<noteq> []" and "model_ready s"
  shows "message_count ''USER'' (state_of (npu_send_message th d (s\<lparr>user_input := msg\<rparr>)))
           = message_count ''USER'' s + 1 \<and>
         current_context (state_of (npu_send_message th d (s\<lparr>user_input := msg\<rparr>)))
           = current_context s @ [strip msg] \<and>
         (th, Chat_insert_end ([CHR 0x0A] @ ''[USER]: '' @ strip msg) ''USER'')
           \<in> set (trace (state_of (npu_send_message th d (s\<lparr>user_input := msg\<rparr>)))) \<and>
         R1_chat_insert_end ([CHR 0x0A] @ strip msg @ [CHR 0x0A]) ''user''
           \<in> set (r1_trace (state_of (r1_send_message (s'\<lparr>r1_user_input := msg\<rparr>))))"
proof -
  obtain t where t: "npu_send_message th d (s\<lparr>user_input := msg\<rparr>) = Raised TclError t"
    "current_context t = current_context s @ [strip msg]"
    "message_count ''USER'' t = message_count ''USER'' s + 1"
    "(th, Chat_insert_end ([CHR 0x0A] @ ''[USER]: '' @ strip msg) ''USER'') \<in> set (trace t)"
    using assms npu_send_value [of "s\<lparr>user_input := msg\<rparr>" th d]
    by (auto simp: message_count_def)
  obtain u where u: "r1_send_message (s'\<lparr>r1_user_input := msg\<rparr>) = Raised TclError u"
    "R1_chat_insert_end ([CHR 0x0A] @ strip msg @ [CHR 0x0A]) ''user'' \<in> set (r1_trace u)"
    using assms(1) r1_send_value [of "s'\<lparr>r1_user_input := msg\<rparr>"] by auto
  show ?thesis using t u by simp
qed

theorem send_message_without_pending_check_witness:
  "strip '' b '' \<noteq> [] \<and>
   model_ready (run [Model_loaded, Timer_fires 0, User_submit ''a'' 0] gui_init) \<and>
   message_count ''USER'' (run [Model_loaded, Timer_fires 0, User_submit ''a'' 0] gui_init) = 1 \<and>
   message_count ''NPU'' (run [Model_loaded, Timer_fires 0, User_submit ''a'' 0] gui_init) = 0 \<and>
   message_count ''USER''
     (state_of (npu_send_message UI 0
        ((run [Model_loaded, Timer_fires 0, User_submit ''a'' 0] gui_init)
           \<lparr>user_input := '' b ''\<rparr>))) = 2"
proof -
  define s1 where "s1 = run [Model_loaded, Timer_fires 0, User_submit ''a'' 0] gui_init"
  have a: "strip '' b '' \<noteq> []" by code_simp
  have b: "model_ready s1" unfolding s1_def by code_simp
  have c: "message_count ''USER'' s1 = 1" unfolding s1_def by code_simp
  have e: "message_count ''NPU'' s1 = 0" unfolding s1_def by code_simp
  have "message_count ''USER'' (state_of (npu_send_message UI 0 (s1\<lparr>user_input := '' b ''\<rparr>)))
          = message_count ''USER'' s1 + 1"
    using send_message_without_pending_check [OF a b, of UI 0 r1_gui_init] by blast
  then have "message_count ''USER''
      (state_of (npu_send_message UI 0 (s1\<lparr>user_input := '' b ''\<rparr>))) = 2"
    unfolding c by simp
  with a b c e show ?thesis unfolding s1_def by blast
qed

text \<open>
  In the simple variant \<open>_generate_response\<close> returns on a window whose indicator was
  never started.
\<close>

lemma r1_gui_generate_response_returns:
  "typing_animation s = None \<Longrightarrow> \<exists>t. r1_gui_generate_response user_text d s = Returned t"
proof -
  assume n: "typing_animation s = None"
  obtain response where "r1_generate_response user_text d = Inr response"
    unfolding r1_generate_response_def using choice_nonempty [OF responses_nonempty] by blast
  then show ?thesis using n by (simp add: r1_gui_generate_response_def)
qed

section \<open>Precedence of the greeting check\<close>

text \<open>
  C1, amended. For an input with a greeting keyword, the backend variant chooses the
  greeting pool whether or not the input has a question mark; the simple variant tests the
  question mark first, so it chooses its hello pool only when the input has none, and its
  question pool otherwise.
\<close>

theorem greeting_precedence:
  assumes "any_greet input_text"
  shows "npu_category input_text = P_greeting \<and>
         (\<exists>template \<in> set (response_patterns P_greeting). \<exists>technical.
            npu_generate_response True input_text r = Inr (template @ '' '' @ technical)) \<and>
         r1_category input_text = (if CHR ''?'' \<in> set input_text then C_question else C_hello) \<and>
         (\<exists>response \<in> set (responses (if CHR ''?'' \<in> set input_text then C_question else C_hello)).
            r1_generate_response input_text d = Inr response)"
proof -
  have n: "npu_category input_text = P_greeting" using assms by (simp add: npu_category_def)
  have c: "r1_category input_text = (if CHR ''?'' \<in> set input_text then C_question else C_hello)"
    using assms by (simp add: r1_category_def str_in_char)
  obtain template i j where "template \<in> set (response_patterns (npu_category input_text))"
    "npu_generate_response True input_text r =
       Inr (template @ '' [System: '' @ components r ! i @ '' | '' @ components r ! j @ '']'')"
    using npu_response_loaded [of input_text r] by blast
  then have g: "\<exists>template \<in> set (response_patterns P_greeting). \<exists>technical.
            npu_generate_response True input_text r = Inr (template @ '' '' @ technical)"
    unfolding n by auto
  have "\<exists>response \<in> set (responses (r1_category input_text)).
          r1_generate_response input_text d = Inr response"
    unfolding r1_generate_response_def by (rule choice_nonempty [OF responses_nonempty])
  with n c g show ?thesis by simp
qed

theorem greeting_precedence_witness:
  "any_greet ''Hello?'' \<and> npu_category ''Hello?'' = P_greeting \<and> r1_category ''Hello?'' = C_question"
proof -
  have a: "any_greet ''Hello?''" by code_simp
  show ?thesis using greeting_precedence [OF a, of
      "\<lparr>d_template = 0, d_temp = 0, d_load = 0, d_memory = 0, d_time = 0, d_pick0 = 0,
       d_pick1 = 0\<rparr>" 0] a by simp
qed

text \<open>
  C1, as the spec states it, fails for the simple variant: "hi?" holds a greeting keyword
  and is answered from the question pool.
\<close>

theorem greeting_precedence_counterexample:
  "any_greet ''hi?'' \<and> r1_category ''hi?'' = C_question \<and>
   r1_generate_response ''hi?'' 0 = Inr ''Ancient feline secret... but where's the tuna?''"
  by code_simp

end
